theory Spec2Isabelle
  imports Complex_Main
begin

section \<open>The Nardis turn orchestrator (src/modules/nardis.ts)\<close>

text \<open>
  A shallow embedding of the class \<open>Nardis\<close>. The classes \<open>Player\<close>, \<open>Finance\<close>,
  \<open>Upgrade\<close> and \<open>Route\<close>, the enums of \<open>types/types\<close>, the table \<open>localKeys\<close> and the
  helper \<open>getRangeTurnCost\<close> are imported by the file and are not part of it: the parts of
  them that the orchestrator touches are modelled from the specification or taken as
  parameters, and each such place says so.

  The methods modelled are the constructor, the two accessors, \<open>endTurn\<close> with
  \<open>handleComputerTurn\<close> and \<open>saveGame\<close>, \<open>hasAnyPlayerWon\<close>, \<open>addUpgradeToPlayer\<close>,
  \<open>removeRouteFromPlayerQueue\<close> with \<open>handleRemoveRouteFromPlayerFinance\<close>,
  \<open>getPotentialRouteCost\<close> and \<open>createFromLocalStorage\<close>.

  A JavaScript \<open>number\<close> is modelled by a rational: every finite double is one, \<open>NaN\<close> and
  the infinities are left out, and arithmetic is exact.
\<close>

subsection \<open>Values\<close>

type_synonym number = rat

text \<open>What a JavaScript expression of object type can hold.\<close>

datatype 'a js = Undefined | Null | Val 'a

text \<open>
  \<open>Boolean(x)\<close> for a number, a string, an array and an object reference. An array is
  an object: it is truthy also when it is empty.
\<close>

definition truthyNumber :: "number \<Rightarrow> bool" where
  "truthyNumber n = (n \<noteq> 0)"

definition truthyString :: "string js \<Rightarrow> bool" where
  "truthyString v = (case v of Val s \<Rightarrow> s \<noteq> [] | Null \<Rightarrow> False | Undefined \<Rightarrow> False)"

definition truthyArray :: "'a list \<Rightarrow> bool" where
  "truthyArray xs = True"

definition truthyObject :: "'a js \<Rightarrow> bool" where
  "truthyObject v = (case v of Val x \<Rightarrow> True | Null \<Rightarrow> False | Undefined \<Rightarrow> False)"

text \<open>\<open>xs[0]\<close>: \<open>undefined\<close> on the empty array.\<close>

definition index0 :: "'a list \<Rightarrow> 'a js" where
  "index0 xs = (case xs of [] \<Rightarrow> Undefined | x # rest \<Rightarrow> Val x)"

text \<open>
  What can be thrown: the \<open>TypeError\<close> of a property access on \<open>undefined\<close>, and
  \<open>new Error(message)\<close>.
\<close>

datatype Error = TypeError | Error string

datatype 'a outcome = Returned 'a | Threw Error

subsection \<open>Enums of types/types\<close>

text \<open>
  Modelled from the spec: the enums \<open>UpgradeType\<close>, \<open>FinanceType\<close>, \<open>PlayerType\<close> and
  \<open>LocalKey\<close> are declared in types/types, which is not under src/. The members listed are
  the ones nardis.ts names; \<open>OtherUpgrade\<close> and \<open>OtherFinance\<close> stand for the remaining ones.
\<close>

datatype UpgradeType = TrainValueCheaper | TrackValueCheaper | TurnCostCheaper | OtherUpgrade

datatype FinanceType = Track | Train | Upgrade | OtherFinance

datatype PlayerType = Human | Computer

datatype LocalKey =
  HasActiveGame | Trains | Resources | Upgrades | Cities | Players | CurrentPlayer | Turn

subsection \<open>Upgrade, Route, Finance, Player\<close>

text \<open>
  Modelled from the spec: class \<open>Upgrade\<close> (core/player/upgrade) is not under src/. An
  upgrade has an identity, a kind, a numeric effect value and a cost.
\<close>

record Upgrade =
  upgId :: string
  upgType :: UpgradeType
  upgValue :: number
  upgCost :: number

text \<open>
  Modelled from the spec: class \<open>Route\<close> (core/route) is not under src/. Only the identity
  of a route and its purchase cost matter here.
\<close>

record Route =
  routeId :: string
  routeGoldCost :: number

text \<open>
  Modelled from the spec: class \<open>Finance\<close> (core/player/finance) is not under src/. The
  expense side of the ledger is a list of entries keyed by category and subject id, each
  holding a quantity and a unit cost. \<open>addToFinanceExpense\<close> appends an entry, or merges
  into the entry of the same key by adding the quantity; \<open>removeFromFinanceExpense\<close>
  deletes the matching entry and returns whether one was found.
\<close>

record Expense =
  expType :: FinanceType
  expId :: string
  expQuantity :: number
  expUnitCost :: number

type_synonym Finance = "Expense list"

definition expenseIs :: "FinanceType \<Rightarrow> string \<Rightarrow> Expense \<Rightarrow> bool" where
  "expenseIs t i e = (expType e = t \<and> expId e = i)"

fun addToFinanceExpense :: "FinanceType \<Rightarrow> string \<Rightarrow> number \<Rightarrow> number \<Rightarrow> Finance \<Rightarrow> Finance" where
  "addToFinanceExpense t i q c [] =
     [\<lparr>expType = t, expId = i, expQuantity = q, expUnitCost = c\<rparr>]"
| "addToFinanceExpense t i q c (e # es) =
     (if expenseIs t i e then e\<lparr>expQuantity := expQuantity e + q\<rparr> # es
      else e # addToFinanceExpense t i q c es)"

definition removeFromFinanceExpense :: "FinanceType \<Rightarrow> string \<Rightarrow> Finance \<Rightarrow> bool \<times> Finance" where
  "removeFromFinanceExpense t i fin =
     (list_ex (expenseIs t i) fin, filter (\<lambda>e. \<not> expenseIs t i e) fin)"

text \<open>
  Modelled from the spec: class \<open>Player\<close> (core/player/player) is not under src/. A player
  has a type, a gold balance, owned routes and upgrades, a Finance instance and a queue of
  pending routes with their remaining turn cost. \<open>addUpgrade\<close> adds to the owned upgrades;
  \<open>removeRouteFromQueue\<close> removes the queued route of that id and returns whether it
  was there.
\<close>

record Player =
  playerType :: PlayerType
  gold :: number
  routes :: "Route list"
  upgrades :: "Upgrade list"
  finance :: Finance
  queue :: "(Route \<times> number) list"

definition getRoutes :: "Player \<Rightarrow> Route list" where
  "getRoutes p = routes p"

definition getUpgrades :: "Player \<Rightarrow> Upgrade list" where
  "getUpgrades p = upgrades p"

definition getFinance :: "Player \<Rightarrow> Finance" where
  "getFinance p = finance p"

definition addUpgrade :: "Upgrade \<Rightarrow> Player \<Rightarrow> Player" where
  "addUpgrade u p = p\<lparr>upgrades := upgrades p @ [u]\<rparr>"

definition queuedAs :: "string \<Rightarrow> Route \<times> number \<Rightarrow> bool" where
  "queuedAs i entry = (routeId (fst entry) = i)"

definition removeRouteFromQueue :: "string \<Rightarrow> Player \<Rightarrow> bool \<times> Player" where
  "removeRouteFromQueue i p =
     (list_ex (queuedAs i) (queue p), p\<lparr>queue := filter (\<lambda>entry. \<not> queuedAs i entry) (queue p)\<rparr>)"

subsection \<open>The game state\<close>

text \<open>
  Players are objects: the orchestrator holds references, \<open>equals\<close> compares identity
  (modelled from the spec, as \<open>Player\<close> is not under src/), and a change made through one
  reference is seen through every other. So the state carries the store of \<open>Player\<close>
  objects next to the four fields of the instance, and \<open>window.localStorage\<close>.

  \<open>handled\<close> is ghost state: the calls of \<open>handleTurn\<close> that \<open>handleComputerTurn\<close> has
  made, in call order, each with the player it was called on and how it ended.
\<close>

type_synonym PlayerRef = nat

text \<open>
  Of the catalog, the orchestrator's own logic reads the upgrades only; trains, resources
  and cities reach it through \<open>handleTurn\<close> and the encoder of \<open>saveGame\<close>.
\<close>

record GameData =
  dataUpgrades :: "Upgrade list"

record Nardis =
  data :: GameData
  players :: "PlayerRef list"
  currentPlayer :: "PlayerRef js"
  turn :: number
  heap :: "PlayerRef \<Rightarrow> Player"
  localStorage :: "string \<rightharpoonup> string"
  handled :: "(PlayerRef \<times> unit outcome) list"

definition equals :: "PlayerRef \<Rightarrow> PlayerRef js \<Rightarrow> bool" where
  "equals p other = (other = Val p)"

text \<open>A logged call that ended in a throw.\<close>

definition raised :: "PlayerRef \<times> unit outcome \<Rightarrow> bool" where
  "raised call = (case snd call of Threw e \<Rightarrow> True | Returned u \<Rightarrow> False)"

subsection \<open>Route cost: getPotentialRouteCost\<close>

record RouteCost =
  goldCost :: number
  turnCost :: number

text \<open>The body of \<open>valUp.forEach\<close>: one step on the variable \<open>goldCost\<close>.\<close>

definition trackStep :: "number \<Rightarrow> Upgrade \<Rightarrow> number" where
  "trackStep g e =
     (let v = of_int \<lfloor>g * upgValue e\<rfloor>
      in if g - v < 10 then 10 else g - v)"

text \<open>The body of \<open>turnUp.forEach\<close>: one step on the variable \<open>turnCost\<close>.\<close>

definition turnStep :: "number \<Rightarrow> Upgrade \<Rightarrow> number" where
  "turnStep t e = (if t \<ge> 2 then t - upgValue e else t)"

definition isTrackUp :: "Upgrade \<Rightarrow> bool" where
  "isTrackUp u = (upgType u = TrackValueCheaper)"

definition isTurnUp :: "Upgrade \<Rightarrow> bool" where
  "isTurnUp u = (upgType u = TurnCostCheaper)"

text \<open>
  \<open>getRangeTurnCost\<close> (util/util) is not under src/: it is the parameter \<open>rtc\<close>. Reading
  the upgrades of an \<open>undefined\<close> current player throws.
\<close>

definition getPotentialRouteCost ::
  "(number \<Rightarrow> number) \<Rightarrow> Nardis \<Rightarrow> number \<Rightarrow> RouteCost outcome" where
  "getPotentialRouteCost rtc s distance =
     (case currentPlayer s of
        Val p \<Rightarrow>
          (let ups = getUpgrades (heap s p);
               valUp = filter isTrackUp ups;
               turnUp = filter isTurnUp ups;
               g = foldl trackStep (distance * 2) valUp;
               t = foldl turnStep (rtc distance) turnUp
           in Returned \<lparr>goldCost = g, turnCost = (if truthyNumber t then t else 1)\<rparr>)
      | Null \<Rightarrow> Threw TypeError
      | Undefined \<Rightarrow> Threw TypeError)"

text \<open>
  The track upgrades as the specification words them, for comparison with the loop
  above: each takes \<open>floor(goldCost * value)\<close> off, and the result is clamped to 10 from
  below.
\<close>

fun specTrackGold :: "number \<Rightarrow> number list \<Rightarrow> number" where
  "specTrackGold g [] = g"
| "specTrackGold g (v # vs) = specTrackGold (max 10 (g - of_int \<lfloor>g * v\<rfloor>)) vs"

text \<open>
  A stand-in for \<open>getRangeTurnCost\<close> in concrete evaluations: the step function with
  the single step \<open>c\<close>.
\<close>

definition flatTurnCost :: "number \<Rightarrow> number \<Rightarrow> number" where
  "flatTurnCost c distance = c"

subsection \<open>Construction and accessors\<close>

text \<open>
  The optional arguments are \<open>Undefined\<close> when omitted. The instance is created next to
  the \<open>Player\<close> objects and the storage that exist already; no call has been logged.
\<close>

definition newNardis ::
  "GameData \<Rightarrow> PlayerRef list \<Rightarrow> PlayerRef js \<Rightarrow> number js \<Rightarrow>
   (PlayerRef \<Rightarrow> Player) \<Rightarrow> (string \<rightharpoonup> string) \<Rightarrow> Nardis" where
  "newNardis gameData ps cp t h st =
     \<lparr>data = gameData,
      players = ps,
      currentPlayer = (if truthyObject cp then cp else index0 ps),
      turn = (case t of Val n \<Rightarrow> if truthyNumber n then n else 1 | Null \<Rightarrow> 1 | Undefined \<Rightarrow> 1),
      heap = h,
      localStorage = st,
      handled = []\<rparr>"

definition getCurrentPlayer :: "Nardis \<Rightarrow> PlayerRef js" where
  "getCurrentPlayer s = currentPlayer s"

definition getCurrentTurn :: "Nardis \<Rightarrow> number" where
  "getCurrentTurn s = turn s"

subsection \<open>hasAnyPlayerWon\<close>

record WinState =
  player :: "PlayerRef js"
  hasWon :: bool

definition hasAnyPlayerWon :: "Nardis \<Rightarrow> WinState" where
  "hasAnyPlayerWon s =
     (let result = filter (\<lambda>p. gold (heap s p) > 10000) (players s)
      in \<lparr>player = (if truthyArray result then index0 result else Null),
          hasWon = truthyArray result\<rparr>)"

subsection \<open>addUpgradeToPlayer\<close>

text \<open>
  With no match, \<open>matchedUpgrade[0]\<close> is \<open>undefined\<close>: it is handed to \<open>addUpgrade\<close> and
  the read of its \<open>id\<close> throws. What \<open>addUpgrade(undefined)\<close> has done to the player by
  then is a matter of the class \<open>Player\<close>, so a throw of this method carries no state.
\<close>

definition withPlayer :: "PlayerRef \<Rightarrow> (Player \<Rightarrow> Player) \<Rightarrow> Nardis \<Rightarrow> Nardis" where
  "withPlayer p f s = s\<lparr>heap := (heap s)(p := f (heap s p))\<rparr>"

definition addUpgradeToPlayer :: "string \<Rightarrow> Nardis \<Rightarrow> (bool \<times> Nardis) outcome" where
  "addUpgradeToPlayer i s =
     (let matchedUpgrade = filter (\<lambda>u. upgId u = i) (dataUpgrades (data s))
      in if truthyArray matchedUpgrade then
           (case currentPlayer s of
              Val p \<Rightarrow>
                (case index0 matchedUpgrade of
                   Val u \<Rightarrow>
                     (let s1 = withPlayer p (addUpgrade u) s;
                          s2 = withPlayer p
                                 (\<lambda>q. q\<lparr>finance :=
                                    addToFinanceExpense Upgrade (upgId u) 1 (upgCost u) (getFinance q)\<rparr>) s1
                      in Returned (True, s2))
                 | Null \<Rightarrow> Threw TypeError
                 | Undefined \<Rightarrow> Threw TypeError)
            | Null \<Rightarrow> Threw TypeError
            | Undefined \<Rightarrow> Threw TypeError)
         else Returned (False, s))"

subsection \<open>removeRouteFromPlayerQueue\<close>

text \<open>\<open>a && b\<close> evaluates \<open>b\<close> only when \<open>a\<close> is true.\<close>

definition handleRemoveRouteFromPlayerFinance ::
  "string \<Rightarrow> string \<Rightarrow> Nardis \<Rightarrow> bool outcome \<times> Nardis" where
  "handleRemoveRouteFromPlayerFinance routeId' trainId s =
     (case currentPlayer s of
        Val p \<Rightarrow>
          (let (r1, f1) = removeFromFinanceExpense Track routeId' (getFinance (heap s p))
           in if r1 then
                (let (r2, f2) = removeFromFinanceExpense Train trainId f1
                 in (Returned r2, withPlayer p (\<lambda>q. q\<lparr>finance := f2\<rparr>) s))
              else (Returned False, withPlayer p (\<lambda>q. q\<lparr>finance := f1\<rparr>) s))
      | Null \<Rightarrow> (Threw TypeError, s)
      | Undefined \<Rightarrow> (Threw TypeError, s))"

definition removeRouteFromPlayerQueue ::
  "string \<Rightarrow> string \<Rightarrow> Nardis \<Rightarrow> bool outcome \<times> Nardis" where
  "removeRouteFromPlayerQueue routeId' trainId s =
     (case currentPlayer s of
        Val p \<Rightarrow>
          (let (removed, q) = removeRouteFromQueue routeId' (heap s p);
               s1 = withPlayer p (\<lambda>old. q) s
           in if removed then handleRemoveRouteFromPlayerFinance routeId' trainId s1
              else (Returned False, s1))
      | Null \<Rightarrow> (Threw TypeError, s)
      | Undefined \<Rightarrow> (Threw TypeError, s))"

subsection \<open>endTurn: handleComputerTurn, saveGame\<close>

text \<open>
  \<open>Player.handleTurn\<close> is not under src/: it is the parameter \<open>ht\<close>, which gets the player
  it is called on, the turn information and the store of players, and gives back how the
  call ended and the store it left. It has no reference to the orchestrator, so it cannot
  write the fields of the instance.
\<close>

record HandleTurnInfo =
  infoTurn :: number
  infoData :: GameData
  infoRoutes :: "Route list"
  infoUpgrades :: "Upgrade list"

type_synonym TurnHandler =
  "PlayerRef \<Rightarrow> HandleTurnInfo \<Rightarrow> (PlayerRef \<Rightarrow> Player) \<Rightarrow> unit outcome \<times> (PlayerRef \<Rightarrow> Player)"

text \<open>
  The call \<open>player.handleTurn({turn, data, playerData})\<close>, logged with how it ended.
\<close>

definition callHandleTurn :: "TurnHandler \<Rightarrow> PlayerRef \<Rightarrow> Nardis \<Rightarrow> unit outcome \<times> Nardis" where
  "callHandleTurn ht p s =
     (let info = \<lparr>infoTurn = turn s, infoData = data s,
                  infoRoutes = getRoutes (heap s p), infoUpgrades = getUpgrades (heap s p)\<rparr>;
          res = ht p info (heap s)
      in (fst res, s\<lparr>heap := snd res, handled := handled s @ [(p, fst res)]\<rparr>))"

text \<open>
  \<open>this.players.forEach\<close>: the test reads \<open>this._currentPlayer\<close> as it is at that
  iteration. A throw of the callback leaves the loop at once.
\<close>

fun forEachPlayer :: "TurnHandler \<Rightarrow> PlayerRef list \<Rightarrow> Nardis \<Rightarrow> unit outcome \<times> Nardis" where
  "forEachPlayer ht [] s = (Returned (), s)"
| "forEachPlayer ht (p # rest) s =
     (if \<not> equals p (currentPlayer s) \<and> playerType (heap s p) = Computer then
        (let res = callHandleTurn ht p (s\<lparr>currentPlayer := Val p\<rparr>)
         in case fst res of
              Threw e \<Rightarrow> (Threw e, snd res)
            | Returned u \<Rightarrow> forEachPlayer ht rest (snd res))
      else forEachPlayer ht rest s)"

definition handleComputerTurn :: "TurnHandler \<Rightarrow> Nardis \<Rightarrow> unit outcome \<times> Nardis" where
  "handleComputerTurn ht s =
     (let actualPlayer = currentPlayer s;
          res = forEachPlayer ht (players s) s
      in case fst res of
           Threw e \<Rightarrow> (Threw e, snd res)
         | Returned u \<Rightarrow> (Returned (), (snd res)\<lparr>currentPlayer := actualPlayer\<rparr>))"

text \<open>
  The table \<open>localKeys\<close> (util/constants) is not under src/: it is the parameter \<open>keys\<close>.
  So is what is written under each key, \<open>btoa(JSON.stringify(...))\<close> of the deconstructed
  entities: the parameter \<open>enc\<close>. Deconstructing an \<open>undefined\<close> current player throws,
  after the six keys before it have been written.
\<close>

definition setItem :: "string \<Rightarrow> string \<Rightarrow> Nardis \<Rightarrow> Nardis" where
  "setItem k v s = s\<lparr>localStorage := (localStorage s)(k \<mapsto> v)\<rparr>"

definition saveGame ::
  "(LocalKey \<Rightarrow> string) \<Rightarrow> (LocalKey \<Rightarrow> Nardis \<Rightarrow> string) \<Rightarrow> Nardis \<Rightarrow> unit outcome \<times> Nardis" where
  "saveGame keys enc s =
     (let s1 = setItem (keys HasActiveGame) ''1'' s;
          s2 = setItem (keys Trains) (enc Trains s) s1;
          s3 = setItem (keys Resources) (enc Resources s) s2;
          s4 = setItem (keys Upgrades) (enc Upgrades s) s3;
          s5 = setItem (keys Cities) (enc Cities s) s4;
          s6 = setItem (keys Players) (enc Players s) s5
      in case currentPlayer s of
           Val p \<Rightarrow>
             (let s7 = setItem (keys CurrentPlayer) (enc CurrentPlayer s) s6;
                  s8 = setItem (keys Turn) (enc Turn s) s7
              in (Returned (), s8))
         | Null \<Rightarrow> (Threw TypeError, s6)
         | Undefined \<Rightarrow> (Threw TypeError, s6))"

definition endTurn ::
  "TurnHandler \<Rightarrow> (LocalKey \<Rightarrow> string) \<Rightarrow> (LocalKey \<Rightarrow> Nardis \<Rightarrow> string) \<Rightarrow> Nardis \<Rightarrow>
   unit outcome \<times> Nardis" where
  "endTurn ht keys enc s =
     (let res = handleComputerTurn ht s
      in case fst res of
           Threw e \<Rightarrow> (Threw e, snd res)
         | Returned u \<Rightarrow> saveGame keys enc ((snd res)\<lparr>turn := turn (snd res) + 1\<rparr>))"

subsection \<open>createFromLocalStorage\<close>

text \<open>
  \<open>getItem\<close> gives \<open>null\<close> for a key that is absent. What follows the test of the flag
  (decoding the seven other keys and rebuilding catalog and players through
  \<open>createFromStringifiedJSON\<close>) is not under src/: it is the parameter \<open>decode\<close>, which
  gives the arguments of the constructor or throws. A turn that \<open>parseInt\<close> cannot read is
  \<open>Undefined\<close> there.
\<close>

definition getItem :: "string \<Rightarrow> (string \<rightharpoonup> string) \<Rightarrow> string js" where
  "getItem k st = (case st k of None \<Rightarrow> Null | Some v \<Rightarrow> Val v)"

record Restored =
  restoredData :: GameData
  restoredPlayers :: "PlayerRef list"
  restoredCurrentPlayer :: "PlayerRef js"
  restoredTurn :: "number js"
  restoredHeap :: "PlayerRef \<Rightarrow> Player"

definition createFromLocalStorage ::
  "(LocalKey \<Rightarrow> string) \<Rightarrow> ((string \<rightharpoonup> string) \<Rightarrow> Restored outcome) \<Rightarrow>
   (string \<rightharpoonup> string) \<Rightarrow> Nardis outcome" where
  "createFromLocalStorage keys decode st =
     (if \<not> truthyString (getItem (keys HasActiveGame) st) then
        Threw (Error ''cannot recreate from empty storage'')
      else
        (case decode st of
           Threw e \<Rightarrow> Threw e
         | Returned r \<Rightarrow>
             Returned (newNardis (restoredData r) (restoredPlayers r) (restoredCurrentPlayer r)
                         (restoredTurn r) (restoredHeap r) st)))"

subsection \<open>Concrete games\<close>

text \<open>
  Sample values for the evaluations below: a player with nothing, an upgrade of a given
  kind and value, a game over a given catalog, player list, current player and store, the
  storage keys, an encoder, a decoder, and two turn handlers (one that returns, one that
  throws).
\<close>

definition blankPlayer :: "PlayerType \<Rightarrow> Player" where
  "blankPlayer t = \<lparr>playerType = t, gold = 0, routes = [], upgrades = [], finance = [], queue = []\<rparr>"

definition upgradeOf :: "string \<Rightarrow> UpgradeType \<Rightarrow> number \<Rightarrow> Upgrade" where
  "upgradeOf i t v = \<lparr>upgId = i, upgType = t, upgValue = v, upgCost = 100\<rparr>"

definition gameOf ::
  "Upgrade list \<Rightarrow> PlayerRef list \<Rightarrow> PlayerRef \<Rightarrow> (PlayerRef \<Rightarrow> Player) \<Rightarrow> Nardis" where
  "gameOf catalog ps cur h =
     \<lparr>data = \<lparr>dataUpgrades = catalog\<rparr>, players = ps, currentPlayer = Val cur, turn = 1,
      heap = h, localStorage = Map.empty, handled = []\<rparr>"

fun sampleKeys :: "LocalKey \<Rightarrow> string" where
  "sampleKeys HasActiveGame = ''hasActiveGame''"
| "sampleKeys Trains = ''trains''"
| "sampleKeys Resources = ''resources''"
| "sampleKeys Upgrades = ''upgrades''"
| "sampleKeys Cities = ''cities''"
| "sampleKeys Players = ''players''"
| "sampleKeys CurrentPlayer = ''currentPlayer''"
| "sampleKeys Turn = ''turn''"

definition sampleEncode :: "LocalKey \<Rightarrow> Nardis \<Rightarrow> string" where
  "sampleEncode k s = ''e30=''"

definition quietTurn :: TurnHandler where
  "quietTurn p info h = (Returned (), h)"

definition failingTurn :: TurnHandler where
  "failingTurn p info h = (Threw (Error ''turn failed''), h)"

definition sampleDecode :: "(string \<rightharpoonup> string) \<Rightarrow> Restored outcome" where
  "sampleDecode st =
     Returned \<lparr>restoredData = \<lparr>dataUpgrades = []\<rparr>, restoredPlayers = [0],
               restoredCurrentPlayer = Val 0, restoredTurn = Val 4,
               restoredHeap = (\<lambda>r. blankPlayer Human)\<rparr>"

definition twoTrackUpgrades :: Nardis where
  "twoTrackUpgrades =
     gameOf [] [0] 0
       (\<lambda>r. (blankPlayer Human)\<lparr>upgrades :=
          [upgradeOf ''u1'' TrackValueCheaper (1 / 2), upgradeOf ''u2'' TrackValueCheaper (1 / 2)]\<rparr>)"

definition oneTurnUpgrade :: "number \<Rightarrow> Nardis" where
  "oneTurnUpgrade v =
     gameOf [] [0] 0 (\<lambda>r. (blankPlayer Human)\<lparr>upgrades := [upgradeOf ''u1'' TurnCostCheaper v]\<rparr>)"

text \<open>
  A player with the route \<open>r1\<close> queued and its two expenses booked; two computer players
  of which the second is the current player; a human current player and one computer player.
\<close>

definition queuedRoute :: Nardis where
  "queuedRoute =
     gameOf [] [0] 0
       (\<lambda>r. (blankPlayer Human)\<lparr>
          finance := [\<lparr>expType = Track, expId = ''r1'', expQuantity = 1, expUnitCost = 20\<rparr>,
                      \<lparr>expType = Train, expId = ''t1'', expQuantity = 1, expUnitCost = 50\<rparr>],
          queue := [(\<lparr>routeId = ''r1'', routeGoldCost = 20\<rparr>, 2)]\<rparr>)"

definition twoComputers :: Nardis where
  "twoComputers = gameOf [] [1, 2] 2 (\<lambda>r. blankPlayer Computer)"

definition humanAndComputer :: Nardis where
  "humanAndComputer = gameOf [] [0, 1] 0 ((\<lambda>r. blankPlayer Human)(1 := blankPlayer Computer))"

section \<open>Route cost\<close>

subsection \<open>The two loops\<close>

lemma trackStep_max: "trackStep g e = max 10 (g - of_int \<lfloor>g * upgValue e\<rfloor>)"
  by (simp add: trackStep_def Let_def max_def)

lemma trackStep_ge: "10 \<le> trackStep g e"
  by (simp add: trackStep_max)

lemma foldl_trackStep_spec: "foldl trackStep g xs = specTrackGold g (map upgValue xs)"
  by (induction xs arbitrary: g) (simp_all add: trackStep_max)

lemma foldl_trackStep_ge: "xs \<noteq> [] \<Longrightarrow> 10 \<le> foldl trackStep g xs"
  by (induction xs rule: rev_induct) (simp_all add: trackStep_ge)

lemma turnStep_ge: "1 \<le> t \<Longrightarrow> upgValue e \<le> 1 \<Longrightarrow> 1 \<le> turnStep t e"
  by (simp add: turnStep_def)

lemma foldl_turnStep_ge:
  "1 \<le> t \<Longrightarrow> \<forall>e \<in> set xs. upgValue e \<le> 1 \<Longrightarrow> 1 \<le> foldl turnStep t xs"
  by (induction xs rule: rev_induct) (simp_all add: turnStep_ge)

lemma take_prefix_nonempty: "0 < n \<Longrightarrow> n \<le> length xs \<Longrightarrow> take n xs \<noteq> []"
  by (cases xs) auto

lemma foldl_take_Suc:
  "n < length xs \<Longrightarrow> foldl f a (take (Suc n) xs) = f (foldl f a (take n xs)) (xs ! n)"
  by (simp add: take_Suc_conv_app_nth)

lemma getPotentialRouteCost_Val:
  "currentPlayer s = Val p \<Longrightarrow>
   getPotentialRouteCost rtc s d =
     Returned \<lparr>goldCost = foldl trackStep (d * 2) (filter isTrackUp (getUpgrades (heap s p))),
               turnCost = (let t = foldl turnStep (rtc d) (filter isTurnUp (getUpgrades (heap s p)))
                           in if truthyNumber t then t else 1)\<rparr>"
  by (simp add: getPotentialRouteCost_def Let_def)

subsection \<open>Bounds on the returned cost\<close>

text \<open>
  Claim C1 says that for every distance \<open>d > 0\<close> and every current player the returned
  \<open>turnCost\<close> is at least 1 and the returned \<open>goldCost\<close> at least 10. The code clamps
  \<open>goldCost\<close> inside the loop over the track upgrades only, and replaces a \<open>turnCost\<close> of 0
  only. What holds, for every current player and every distance: \<open>goldCost\<close> is at least
  10 when the distance is at least 5 or the player owns a \<open>TrackValueCheaper\<close> upgrade,
  and \<open>turnCost\<close> is at least 1 when the base turn cost is at least 1 and every
  \<open>TurnCostCheaper\<close> upgrade the player owns has a value of at most 1.
\<close>

theorem potential_route_cost_bounds:
  assumes "currentPlayer s = Val p"
  shows "\<exists>c. getPotentialRouteCost rtc s d = Returned c \<and>
           (5 \<le> d \<or> list_ex isTrackUp (getUpgrades (heap s p)) \<longrightarrow> 10 \<le> goldCost c) \<and>
           (1 \<le> rtc d \<and> (\<forall>u \<in> set (getUpgrades (heap s p)). isTurnUp u \<longrightarrow> upgValue u \<le> 1)
              \<longrightarrow> 1 \<le> turnCost c)"
proof -
  let ?ups = "getUpgrades (heap s p)"
  let ?g = "foldl trackStep (d * 2) (filter isTrackUp ?ups)"
  let ?t = "foldl turnStep (rtc d) (filter isTurnUp ?ups)"
  have gold: "10 \<le> ?g" if "5 \<le> d \<or> list_ex isTrackUp ?ups"
  proof (cases "filter isTrackUp ?ups = []")
    case True
    with that have "5 \<le> d" by (simp add: list_ex_iff filter_empty_conv)
    with True show ?thesis by simp
  next
    case False
    then show ?thesis by (rule foldl_trackStep_ge)
  qed
  have turns: "1 \<le> (if truthyNumber ?t then ?t else 1)"
    if "1 \<le> rtc d \<and> (\<forall>u \<in> set ?ups. isTurnUp u \<longrightarrow> upgValue u \<le> 1)"
  proof -
    from that have "1 \<le> ?t" by (intro foldl_turnStep_ge) auto
    then show ?thesis by simp
  qed
  show ?thesis
    using gold turns by (simp add: getPotentialRouteCost_Val [OF assms] Let_def)
qed

text \<open>
  At distance 5 with no upgrade and a base turn cost of 2: gold 10, turns 2. At distance 1
  with two track upgrades of value 1/2: the guard puts the 2 gold at 10.
\<close>

theorem potential_route_cost_bounds_witness:
  "currentPlayer (gameOf [] [0] 0 (\<lambda>r. blankPlayer Human)) = Val 0 \<and>
   (5::number) \<le> 5 \<and> (1::number) \<le> flatTurnCost 2 5 \<and>
   (\<exists>c. getPotentialRouteCost (flatTurnCost 2) (gameOf [] [0] 0 (\<lambda>r. blankPlayer Human)) 5 = Returned c \<and>
        10 \<le> goldCost c \<and> 1 \<le> turnCost c) \<and>
   currentPlayer twoTrackUpgrades = Val 0 \<and>
   list_ex isTrackUp (getUpgrades (heap twoTrackUpgrades 0)) \<and>
   (\<exists>c. getPotentialRouteCost (flatTurnCost 2) twoTrackUpgrades 1 = Returned c \<and> 10 \<le> goldCost c)"
proof -
  have cur: "currentPlayer (gameOf [] [0] 0 (\<lambda>r. blankPlayer Human)) = Val 0"
    by (simp add: gameOf_def)
  have ups: "getUpgrades (heap (gameOf [] [0] 0 (\<lambda>r. blankPlayer Human)) 0) = []"
    by (simp add: gameOf_def blankPlayer_def getUpgrades_def)
  have base: "(1::number) \<le> flatTurnCost 2 5"
    by (simp add: flatTurnCost_def)
  from potential_route_cost_bounds [OF cur, of "flatTurnCost 2" 5] ups base
  have far: "\<exists>c. getPotentialRouteCost (flatTurnCost 2) (gameOf [] [0] 0 (\<lambda>r. blankPlayer Human)) 5
                 = Returned c \<and> 10 \<le> goldCost c \<and> 1 \<le> turnCost c"
    by auto
  have cur': "currentPlayer twoTrackUpgrades = Val 0"
    by (simp add: twoTrackUpgrades_def gameOf_def)
  have own: "list_ex isTrackUp (getUpgrades (heap twoTrackUpgrades 0))"
    by (simp add: twoTrackUpgrades_def gameOf_def blankPlayer_def getUpgrades_def
        upgradeOf_def isTrackUp_def)
  from potential_route_cost_bounds [OF cur', of "flatTurnCost 2" 1] own
  have near: "\<exists>c. getPotentialRouteCost (flatTurnCost 2) twoTrackUpgrades 1 = Returned c \<and>
                  10 \<le> goldCost c"
    by auto
  from cur base far cur' own near show ?thesis by simp
qed

text \<open>
  At distance 1, for a player whose only upgrade is a \<open>TurnCostCheaper\<close> of value 3, and
  a base turn cost of 2: the gold cost is 2 and the turn cost is \<open>2 - 3\<close>.
\<close>

theorem potential_route_cost_below_bounds:
  "getPotentialRouteCost (flatTurnCost 2)
     (gameOf [] [0] 0 (\<lambda>r. (blankPlayer Human)\<lparr>upgrades := [upgradeOf ''u1'' TurnCostCheaper 3]\<rparr>)) 1
   = Returned \<lparr>goldCost = 2, turnCost = - 1\<rparr>"
  by (simp add: getPotentialRouteCost_def gameOf_def blankPlayer_def upgradeOf_def getUpgrades_def
      isTrackUp_def isTurnUp_def turnStep_def flatTurnCost_def truthyNumber_def Let_def)

subsection \<open>The floor guard of the track upgrades\<close>

text \<open>
  Claim C7: the \<open>TrackValueCheaper\<close> upgrades are applied in list order, each taking
  \<open>floor(goldCost * value)\<close> off and clamping the result to exactly 10 when it would fall
  below 10; so for every distance and every player, after each applied upgrade \<open>goldCost\<close>
  is at least 10, and the returned \<open>goldCost\<close> is at least 10 when the player owns at
  least one such upgrade.
\<close>

theorem track_upgrade_floor_guard:
  assumes "currentPlayer s = Val p"
  shows "\<exists>c. getPotentialRouteCost rtc s d = Returned c \<and>
           goldCost c = specTrackGold (d * 2) (map upgValue (filter isTrackUp (getUpgrades (heap s p)))) \<and>
           (\<forall>n. 0 < n \<and> n \<le> length (filter isTrackUp (getUpgrades (heap s p))) \<longrightarrow>
                10 \<le> foldl trackStep (d * 2) (take n (filter isTrackUp (getUpgrades (heap s p))))) \<and>
           (list_ex isTrackUp (getUpgrades (heap s p)) \<longrightarrow> 10 \<le> goldCost c)"
proof -
  let ?valUp = "filter isTrackUp (getUpgrades (heap s p))"
  have mid: "\<forall>n. 0 < n \<and> n \<le> length ?valUp \<longrightarrow> 10 \<le> foldl trackStep (d * 2) (take n ?valUp)"
    using foldl_trackStep_ge take_prefix_nonempty by blast
  have "list_ex isTrackUp (getUpgrades (heap s p)) \<Longrightarrow> ?valUp \<noteq> []"
    by (simp add: list_ex_iff filter_empty_conv)
  then have fin: "list_ex isTrackUp (getUpgrades (heap s p)) \<longrightarrow> 10 \<le> foldl trackStep (d * 2) ?valUp"
    by (simp add: foldl_trackStep_ge)
  show ?thesis
    using mid fin by (simp add: getPotentialRouteCost_Val [OF assms] foldl_trackStep_spec)
qed

text \<open>Two upgrades of value 1/2 at distance 12: 24, then 12, then 10 by the guard.\<close>

theorem track_upgrade_floor_guard_witness:
  "currentPlayer twoTrackUpgrades = Val 0 \<and>
   list_ex isTrackUp (getUpgrades (heap twoTrackUpgrades 0)) \<and>
   (0::nat) < 1 \<and> 1 \<le> length (filter isTrackUp (getUpgrades (heap twoTrackUpgrades 0))) \<and>
   10 \<le> foldl trackStep (12 * 2) (take 1 (filter isTrackUp (getUpgrades (heap twoTrackUpgrades 0)))) \<and>
   specTrackGold (12 * 2) (map upgValue (filter isTrackUp (getUpgrades (heap twoTrackUpgrades 0)))) = 10 \<and>
   (\<exists>c. getPotentialRouteCost (flatTurnCost 2) twoTrackUpgrades 12 = Returned c \<and>
        goldCost c = 10 \<and> 10 \<le> goldCost c)"
proof -
  have cur: "currentPlayer twoTrackUpgrades = Val 0"
    by (simp add: twoTrackUpgrades_def gameOf_def)
  have own: "list_ex isTrackUp (getUpgrades (heap twoTrackUpgrades 0))"
    by (simp add: twoTrackUpgrades_def gameOf_def blankPlayer_def getUpgrades_def
        upgradeOf_def isTrackUp_def)
  have len: "1 \<le> length (filter isTrackUp (getUpgrades (heap twoTrackUpgrades 0)))"
    by (simp add: twoTrackUpgrades_def gameOf_def blankPlayer_def getUpgrades_def
        upgradeOf_def isTrackUp_def)
  have val: "specTrackGold (12 * 2)
      (map upgValue (filter isTrackUp (getUpgrades (heap twoTrackUpgrades 0)))) = 10"
    by (simp add: twoTrackUpgrades_def gameOf_def blankPlayer_def getUpgrades_def
        upgradeOf_def isTrackUp_def)
  from track_upgrade_floor_guard [OF cur, of "flatTurnCost 2" 12]
  obtain c where c: "getPotentialRouteCost (flatTurnCost 2) twoTrackUpgrades 12 = Returned c"
    "goldCost c = specTrackGold (12 * 2)
       (map upgValue (filter isTrackUp (getUpgrades (heap twoTrackUpgrades 0))))"
    "\<forall>n. 0 < n \<and> n \<le> length (filter isTrackUp (getUpgrades (heap twoTrackUpgrades 0))) \<longrightarrow>
       10 \<le> foldl trackStep (12 * 2) (take n (filter isTrackUp (getUpgrades (heap twoTrackUpgrades 0))))"
    by blast
  from c(3) len
  have mid: "10 \<le> foldl trackStep (12 * 2)
      (take 1 (filter isTrackUp (getUpgrades (heap twoTrackUpgrades 0))))"
    by (metis zero_less_one)
  from cur own len mid val c(1,2) show ?thesis by simp
qed

subsection \<open>The guard of the turn upgrades\<close>

text \<open>
  Claim C8 says that each \<open>TurnCostCheaper\<close> upgrade subtracts its value, that \<open>turnCost\<close>
  never goes below 2 during the loop, and that the returned \<open>turnCost\<close> is floored to 1.
  The code tests \<open>turnCost >= 2\<close> before the subtraction, not after it. What holds: each
  upgrade, in list order, subtracts its value when \<open>turnCost\<close> is at least 2 before the
  subtraction and leaves it as it is otherwise; a loop result of 0 is returned as 1 and a
  loop result of at least 1 as it is; and when the base turn cost is at least 1 and every
  value at most 1, \<open>turnCost\<close> is at least 1 all through the loop and when returned.
\<close>

theorem turn_upgrade_guard:
  assumes "currentPlayer s = Val p"
  shows "\<exists>c. getPotentialRouteCost rtc s d = Returned c \<and>
           (\<forall>n < length (filter isTurnUp (getUpgrades (heap s p))).
              foldl turnStep (rtc d) (take (Suc n) (filter isTurnUp (getUpgrades (heap s p)))) =
                (if 2 \<le> foldl turnStep (rtc d) (take n (filter isTurnUp (getUpgrades (heap s p))))
                 then foldl turnStep (rtc d) (take n (filter isTurnUp (getUpgrades (heap s p))))
                        - upgValue (filter isTurnUp (getUpgrades (heap s p)) ! n)
                 else foldl turnStep (rtc d) (take n (filter isTurnUp (getUpgrades (heap s p)))))) \<and>
           (foldl turnStep (rtc d) (filter isTurnUp (getUpgrades (heap s p))) = 0 \<longrightarrow> turnCost c = 1) \<and>
           (1 \<le> foldl turnStep (rtc d) (filter isTurnUp (getUpgrades (heap s p))) \<longrightarrow>
              turnCost c = foldl turnStep (rtc d) (filter isTurnUp (getUpgrades (heap s p)))) \<and>
           (1 \<le> rtc d \<and> (\<forall>u \<in> set (filter isTurnUp (getUpgrades (heap s p))). upgValue u \<le> 1) \<longrightarrow>
              (\<forall>n \<le> length (filter isTurnUp (getUpgrades (heap s p))).
                 1 \<le> foldl turnStep (rtc d) (take n (filter isTurnUp (getUpgrades (heap s p))))) \<and>
              1 \<le> turnCost c)"
proof -
  let ?turnUp = "filter isTurnUp (getUpgrades (heap s p))"
  let ?t = "foldl turnStep (rtc d) ?turnUp"
  let ?c = "\<lparr>goldCost = foldl trackStep (d * 2) (filter isTrackUp (getUpgrades (heap s p))),
             turnCost = (if truthyNumber ?t then ?t else 1)\<rparr>"
  have run: "getPotentialRouteCost rtc s d = Returned ?c"
    by (simp add: getPotentialRouteCost_Val [OF assms] Let_def)
  have step: "\<forall>n < length ?turnUp.
      foldl turnStep (rtc d) (take (Suc n) ?turnUp) =
        (if 2 \<le> foldl turnStep (rtc d) (take n ?turnUp)
         then foldl turnStep (rtc d) (take n ?turnUp) - upgValue (?turnUp ! n)
         else foldl turnStep (rtc d) (take n ?turnUp))"
    by (simp add: foldl_take_Suc turnStep_def)
  have zero: "?t = 0 \<longrightarrow> turnCost ?c = 1"
    by (simp add: truthyNumber_def)
  have pos: "1 \<le> ?t \<longrightarrow> turnCost ?c = ?t"
    by (simp add: truthyNumber_def)
  have low: "(\<forall>n \<le> length ?turnUp. 1 \<le> foldl turnStep (rtc d) (take n ?turnUp)) \<and> 1 \<le> turnCost ?c"
    if hyp: "1 \<le> rtc d \<and> (\<forall>u \<in> set ?turnUp. upgValue u \<le> 1)"
  proof
    show "\<forall>n \<le> length ?turnUp. 1 \<le> foldl turnStep (rtc d) (take n ?turnUp)"
    proof (intro allI impI)
      fix n
      have "\<forall>u \<in> set (take n ?turnUp). upgValue u \<le> 1"
        using hyp by (meson in_set_takeD)
      with hyp show "1 \<le> foldl turnStep (rtc d) (take n ?turnUp)"
        by (intro foldl_turnStep_ge) auto
    qed
    from hyp have "1 \<le> ?t" by (intro foldl_turnStep_ge) auto
    then show "1 \<le> turnCost ?c" by simp
  qed
  from run step zero pos low show ?thesis by blast
qed

text \<open>
  One upgrade of value 1 on a base turn cost of 3: 2 turns. One upgrade of value 2 on a
  base turn cost of 2: the loop ends at 0, and 1 is returned.
\<close>

theorem turn_upgrade_guard_witness:
  "currentPlayer (oneTurnUpgrade 1) = Val 0 \<and>
   (1::number) \<le> flatTurnCost 3 10 \<and>
   list_all (\<lambda>u. upgValue u \<le> 1) (filter isTurnUp (getUpgrades (heap (oneTurnUpgrade 1) 0))) \<and>
   (\<exists>c. getPotentialRouteCost (flatTurnCost 3) (oneTurnUpgrade 1) 10 = Returned c \<and> 1 \<le> turnCost c) \<and>
   currentPlayer (oneTurnUpgrade 2) = Val 0 \<and>
   foldl turnStep (flatTurnCost 2 10) (filter isTurnUp (getUpgrades (heap (oneTurnUpgrade 2) 0))) = 0 \<and>
   (\<exists>c. getPotentialRouteCost (flatTurnCost 2) (oneTurnUpgrade 2) 10 = Returned c \<and> turnCost c = 1)"
proof -
  have cur: "currentPlayer (oneTurnUpgrade 1) = Val 0"
    by (simp add: oneTurnUpgrade_def gameOf_def)
  have base: "(1::number) \<le> flatTurnCost 3 10"
    by (simp add: flatTurnCost_def)
  have vals: "list_all (\<lambda>u. upgValue u \<le> 1) (filter isTurnUp (getUpgrades (heap (oneTurnUpgrade 1) 0)))"
    by (simp add: oneTurnUpgrade_def gameOf_def blankPlayer_def getUpgrades_def upgradeOf_def
        isTurnUp_def)
  from turn_upgrade_guard [OF cur, of "flatTurnCost 3" 10] base vals
  have one: "\<exists>c. getPotentialRouteCost (flatTurnCost 3) (oneTurnUpgrade 1) 10 = Returned c \<and>
                 1 \<le> turnCost c"
    by (auto simp: list_all_iff)
  have cur': "currentPlayer (oneTurnUpgrade 2) = Val 0"
    by (simp add: oneTurnUpgrade_def gameOf_def)
  have zero: "foldl turnStep (flatTurnCost 2 10)
      (filter isTurnUp (getUpgrades (heap (oneTurnUpgrade 2) 0))) = 0"
    by (simp add: oneTurnUpgrade_def gameOf_def blankPlayer_def getUpgrades_def upgradeOf_def
        isTurnUp_def turnStep_def flatTurnCost_def)
  from turn_upgrade_guard [OF cur', of "flatTurnCost 2" 10] zero
  have two: "\<exists>c. getPotentialRouteCost (flatTurnCost 2) (oneTurnUpgrade 2) 10 = Returned c \<and>
                 turnCost c = 1"
    by auto
  from cur base vals one cur' zero two show ?thesis by simp
qed

text \<open>
  One upgrade of value 3 on a base turn cost of 2, at distance 10: the test \<open>2 >= 2\<close>
  passes, so after this upgrade \<open>turnCost\<close> is \<open>2 - 3\<close>, below 2; it is not 0, so it is
  returned as it is, below 1.
\<close>

theorem turn_cost_below_two:
  "foldl turnStep (flatTurnCost 2 10)
     (take 1 (filter isTurnUp (getUpgrades (heap (oneTurnUpgrade 3) 0)))) = - 1 \<and>
   getPotentialRouteCost (flatTurnCost 2) (oneTurnUpgrade 3) 10
     = Returned \<lparr>goldCost = 20, turnCost = - 1\<rparr>"
  by (simp add: getPotentialRouteCost_def oneTurnUpgrade_def gameOf_def blankPlayer_def
      upgradeOf_def getUpgrades_def isTrackUp_def isTurnUp_def turnStep_def flatTurnCost_def
      truthyNumber_def Let_def)

section \<open>Construction\<close>

text \<open>
  Claim C10: the constructor treats a falsy \<open>turn\<close> as absent. For every non-empty player
  list, a turn of 0 and an omitted turn both give \<open>getCurrentTurn() = 1\<close>, and an omitted
  current player gives as \<open>getCurrentPlayer()\<close> the first element of the list, the same
  object.
\<close>

theorem constructor_defaults:
  assumes "ps \<noteq> []"
  shows "getCurrentTurn (newNardis gd ps cp (Val 0) h st) = 1 \<and>
         getCurrentTurn (newNardis gd ps cp Undefined h st) = 1 \<and>
         getCurrentPlayer (newNardis gd ps Undefined t h st) = Val (hd ps)"
  using assms
  by (cases ps) (simp_all add: newNardis_def getCurrentTurn_def getCurrentPlayer_def
      truthyNumber_def truthyObject_def index0_def)

text \<open>
  The players 3 and 5, with the turn 0, no turn, and no current player.
\<close>

theorem constructor_defaults_witness:
  "[3, 5] \<noteq> ([] :: PlayerRef list) \<and>
   getCurrentTurn (newNardis \<lparr>dataUpgrades = []\<rparr> [3, 5] (Val 5) (Val 0) (\<lambda>r. blankPlayer Human) Map.empty) = 1 \<and>
   getCurrentTurn (newNardis \<lparr>dataUpgrades = []\<rparr> [3, 5] (Val 5) Undefined (\<lambda>r. blankPlayer Human) Map.empty) = 1 \<and>
   getCurrentPlayer (newNardis \<lparr>dataUpgrades = []\<rparr> [3, 5] Undefined (Val 7) (\<lambda>r. blankPlayer Human) Map.empty) = Val 3"
proof -
  have ne: "[3, 5] \<noteq> ([] :: PlayerRef list)" by simp
  from constructor_defaults [OF ne, of "\<lparr>dataUpgrades = []\<rparr>" "Val 5" "\<lambda>r. blankPlayer Human" Map.empty "Val 7"]
  show ?thesis by simp
qed

section \<open>The win state\<close>

text \<open>
  Claim C4 says that \<open>hasAnyPlayerWon()\<close> returns the first player whose gold exceeds
  10000 with a positive win indication, and reports that nobody has won when no player's
  gold does. The array \<open>result\<close> is truthy also when it is empty, so \<open>hasWon\<close> is
  \<open>!!result = true\<close> whatever the players hold. With one player of gold 0 the code
  returns \<open>{player: undefined, hasWon: true}\<close>.
\<close>

theorem nobody_won_yet:
  "hasAnyPlayerWon (gameOf [] [0] 0 (\<lambda>r. blankPlayer Human)) = \<lparr>player = Undefined, hasWon = True\<rparr>"
  by (simp add: hasAnyPlayerWon_def gameOf_def blankPlayer_def truthyArray_def index0_def)

section \<open>Buying an upgrade\<close>

text \<open>
  Claim C5 says that \<open>addUpgradeToPlayer(id)\<close> returns false, changing nothing, when no
  upgrade of the catalog has that id. The test \<open>if (matchedUpgrade)\<close> is on the filtered
  array, which is truthy also when it is empty: the branch is taken,
  \<open>matchedUpgrade[0]\<close> is \<open>undefined\<close>, and reading its \<open>id\<close> throws a TypeError. With the
  catalog holding \<open>u1\<close> only, \<open>addUpgradeToPlayer("u2")\<close> throws; it does not return.
\<close>

theorem add_unknown_upgrade:
  "addUpgradeToPlayer ''u2''
     (gameOf [upgradeOf ''u1'' TrackValueCheaper (1 / 10)] [0] 0 (\<lambda>r. blankPlayer Human))
   = Threw TypeError"
  by (simp add: addUpgradeToPlayer_def gameOf_def upgradeOf_def truthyArray_def index0_def)

section \<open>Cancelling a queued route\<close>

lemma withPlayer_same: "withPlayer p (\<lambda>old. heap s p) s = s"
  by (simp add: withPlayer_def)

lemma removeRouteFromQueue_absent:
  "\<not> list_ex (queuedAs i) (queue p) \<Longrightarrow> removeRouteFromQueue i p = (False, p)"
  by (simp add: removeRouteFromQueue_def list_ex_iff)

lemma removeRouteFromQueue_present:
  "list_ex (queuedAs i) (queue p) \<Longrightarrow>
   removeRouteFromQueue i p = (True, p\<lparr>queue := filter (\<lambda>entry. \<not> queuedAs i entry) (queue p)\<rparr>)"
  by (simp add: removeRouteFromQueue_def)

lemma handleRemove_queue:
  "currentPlayer s = Val p \<Longrightarrow>
   \<exists>b s'. handleRemoveRouteFromPlayerFinance rid tid s = (Returned b, s') \<and>
          queue (heap s' p) = queue (heap s p)"
  by (simp add: handleRemoveRouteFromPlayerFinance_def withPlayer_def Let_def split: prod.splits)

lemma removeRouteFromPlayerQueue_queued:
  assumes "currentPlayer s = Val p" and "list_ex (queuedAs rid) (queue (heap s p))"
  shows "\<exists>b s'. removeRouteFromPlayerQueue rid tid s = (Returned b, s') \<and>
           queue (heap s' p) = filter (\<lambda>entry. \<not> queuedAs rid entry) (queue (heap s p)) \<and>
           queue (heap s' p) \<noteq> queue (heap s p)"
proof -
  let ?q = "(heap s p)\<lparr>queue := filter (\<lambda>entry. \<not> queuedAs rid entry) (queue (heap s p))\<rparr>"
  let ?s1 = "withPlayer p (\<lambda>old. ?q) s"
  have cur1: "currentPlayer ?s1 = Val p"
    using assms(1) by (simp add: withPlayer_def)
  from handleRemove_queue [OF cur1, of rid tid]
  obtain b s' where fin: "handleRemoveRouteFromPlayerFinance rid tid ?s1 = (Returned b, s')"
    and same: "queue (heap s' p) = queue (heap ?s1 p)"
    by blast
  have run: "removeRouteFromPlayerQueue rid tid s = (Returned b, s')"
    using assms fin
    by (simp add: removeRouteFromPlayerQueue_def removeRouteFromQueue_present)
  have q1: "queue (heap ?s1 p) = filter (\<lambda>entry. \<not> queuedAs rid entry) (queue (heap s p))"
    by (simp add: withPlayer_def)
  have shorter: "length (filter (\<lambda>entry. \<not> queuedAs rid entry) (queue (heap s p)))
                   < length (queue (heap s p))"
    using assms(2) by (auto simp: list_ex_iff intro: length_filter_less)
  then have "filter (\<lambda>entry. \<not> queuedAs rid entry) (queue (heap s p)) \<noteq> queue (heap s p)"
    by auto
  with run same q1 show ?thesis by auto
qed

text \<open>
  A route that is not in the current player's queue: the call returns false and the
  state, queue and Finance with it, is exactly as before.
\<close>

lemma removeRouteFromPlayerQueue_not_queued:
  assumes "currentPlayer s = Val p"
    and "\<not> list_ex (queuedAs rid) (queue (heap s p))"
  shows "removeRouteFromPlayerQueue rid tid s = (Returned False, s)"
  using assms
  by (simp add: removeRouteFromPlayerQueue_def removeRouteFromQueue_absent withPlayer_same)

text \<open>
  Claim C6 says that whenever \<open>removeRouteFromPlayerQueue(routeId, trainId)\<close> returns
  false no state has been mutated: the current player's queue and Finance are as before
  the call. The method's own comment says the same of the queue: it returns true if the
  route was removed from the queue, else false. The code takes the route off the queue
  first and then returns whether both expenses were found, and nothing puts the route
  back. With the route \<open>r1\<close> queued and the expenses Track \<open>r1\<close> and Train \<open>t1\<close> booked,
  the call for \<open>r1\<close> that names the train \<open>t2\<close> returns false, and the route is off the
  queue and the Track expense is gone.
\<close>

theorem remove_route_wrong_train:
  "fst (removeRouteFromPlayerQueue ''r1'' ''t2'' queuedRoute) = Returned False \<and>
   queue (heap queuedRoute 0) = [(\<lparr>routeId = ''r1'', routeGoldCost = 20\<rparr>, 2)] \<and>
   queue (heap (snd (removeRouteFromPlayerQueue ''r1'' ''t2'' queuedRoute)) 0) = [] \<and>
   finance (heap queuedRoute 0) =
     [\<lparr>expType = Track, expId = ''r1'', expQuantity = 1, expUnitCost = 20\<rparr>,
      \<lparr>expType = Train, expId = ''t1'', expQuantity = 1, expUnitCost = 50\<rparr>] \<and>
   finance (heap (snd (removeRouteFromPlayerQueue ''r1'' ''t2'' queuedRoute)) 0) =
     [\<lparr>expType = Train, expId = ''t1'', expQuantity = 1, expUnitCost = 50\<rparr>]"
  by (simp add: removeRouteFromPlayerQueue_def handleRemoveRouteFromPlayerFinance_def
      removeRouteFromQueue_def removeFromFinanceExpense_def queuedRoute_def gameOf_def
      blankPlayer_def withPlayer_def queuedAs_def expenseIs_def getFinance_def Let_def)

section \<open>The end of a turn\<close>

text \<open>
  Claim C2 says that \<open>endTurn()\<close> gives every computer player other than the player
  current at the call exactly one \<open>handleTurn\<close> pass and that player none, restores it as
  the current player and adds 1 to the turn. The test in the loop compares with
  \<open>this._currentPlayer\<close>, which the loop has set to the player handled last, and not with
  the saved \<open>actualPlayer\<close>. With the computer players 1 and 2 and 2 the current player,
  both get a pass: player 2 was current at the call.
\<close>

theorem end_turn_current_computer:
  "currentPlayer twoComputers = Val 2 \<and>
   map (\<lambda>r. playerType (heap twoComputers r)) (players twoComputers) = [Computer, Computer] \<and>
   fst (endTurn quietTurn sampleKeys sampleEncode twoComputers) = Returned () \<and>
   handled (snd (endTurn quietTurn sampleKeys sampleEncode twoComputers))
     = [(1, Returned ()), (2, Returned ())] \<and>
   currentPlayer (snd (endTurn quietTurn sampleKeys sampleEncode twoComputers)) = Val 2 \<and>
   turn (snd (endTurn quietTurn sampleKeys sampleEncode twoComputers)) = turn twoComputers + 1"
  by (simp add: endTurn_def handleComputerTurn_def saveGame_def setItem_def twoComputers_def
      gameOf_def blankPlayer_def quietTurn_def equals_def callHandleTurn_def Let_def)

lemma raised_simps [simp]:
  "raised (p, Threw e)" "\<not> raised (p, Returned u)"
  by (simp_all add: raised_def)

lemma callHandleTurn_frame:
  "callHandleTurn ht p s = (r, s') \<Longrightarrow>
   turn s' = turn s \<and> localStorage s' = localStorage s \<and> currentPlayer s' = currentPlayer s \<and>
   handled s' = handled s @ [(p, r)]"
  by (auto simp: callHandleTurn_def Let_def)

lemma forEachPlayer_skip:
  "equals p (currentPlayer s) \<or> playerType (heap s p) \<noteq> Computer \<Longrightarrow>
   forEachPlayer ht (p # rest) s = forEachPlayer ht rest s"
  by auto

lemma forEachPlayer_call:
  "\<not> equals p (currentPlayer s) \<Longrightarrow> playerType (heap s p) = Computer \<Longrightarrow>
   callHandleTurn ht p (s\<lparr>currentPlayer := Val p\<rparr>) = (r, s2) \<Longrightarrow>
   forEachPlayer ht (p # rest) s =
     (case r of Threw e \<Rightarrow> (Threw e, s2) | Returned u \<Rightarrow> forEachPlayer ht rest s2)"
  by (cases r) (simp_all add: Let_def)

lemma forEachPlayer_frame:
  "forEachPlayer ht ps s = (r, s') \<Longrightarrow>
   turn s' = turn s \<and> localStorage s' = localStorage s"
proof (induction ps arbitrary: s)
  case Nil
  then show ?case by simp
next
  case (Cons p rest)
  show ?case
  proof (cases "\<not> equals p (currentPlayer s) \<and> playerType (heap s p) = Computer")
    case False
    with Cons show ?thesis by (simp add: forEachPlayer_skip del: forEachPlayer.simps)
  next
    case True
    obtain r1 s2 where call: "callHandleTurn ht p (s\<lparr>currentPlayer := Val p\<rparr>) = (r1, s2)"
      by (cases "callHandleTurn ht p (s\<lparr>currentPlayer := Val p\<rparr>)")
    from callHandleTurn_frame [OF call]
    have f2: "turn s2 = turn s" "localStorage s2 = localStorage s" by simp_all
    from True call Cons.prems
    have run: "(case r1 of Threw e \<Rightarrow> (Threw e, s2) | Returned u \<Rightarrow> forEachPlayer ht rest s2) = (r, s')"
      by (simp add: forEachPlayer_call del: forEachPlayer.simps)
    show ?thesis
    proof (cases r1)
      case (Threw e)
      with run f2 show ?thesis by simp
    next
      case (Returned u)
      with run have "forEachPlayer ht rest s2 = (r, s')" by simp
      from Cons.IH [OF this] f2 show ?thesis by simp
    qed
  qed
qed

lemma forEachPlayer_log:
  "forEachPlayer ht ps s = (r, s') \<Longrightarrow> \<not> list_ex raised (handled s) \<Longrightarrow>
   (case r of
      Threw e \<Rightarrow> \<exists>p. handled s' \<noteq> [] \<and> last (handled s') = (p, Threw e) \<and> currentPlayer s' = Val p
    | Returned u \<Rightarrow> \<not> list_ex raised (handled s'))"
proof (induction ps arbitrary: s)
  case Nil
  then show ?case by auto
next
  case (Cons p rest)
  show ?case
  proof (cases "\<not> equals p (currentPlayer s) \<and> playerType (heap s p) = Computer")
    case False
    with Cons show ?thesis by (simp add: forEachPlayer_skip del: forEachPlayer.simps)
  next
    case True
    obtain r1 s2 where call: "callHandleTurn ht p (s\<lparr>currentPlayer := Val p\<rparr>) = (r1, s2)"
      by (cases "callHandleTurn ht p (s\<lparr>currentPlayer := Val p\<rparr>)")
    from callHandleTurn_frame [OF call]
    have f2: "currentPlayer s2 = Val p" "handled s2 = handled s @ [(p, r1)]" by simp_all
    from True call Cons.prems(1)
    have run: "(case r1 of Threw e \<Rightarrow> (Threw e, s2) | Returned u \<Rightarrow> forEachPlayer ht rest s2) = (r, s')"
      by (simp add: forEachPlayer_call del: forEachPlayer.simps)
    show ?thesis
    proof (cases r1)
      case (Threw e)
      with run f2 show ?thesis by auto
    next
      case (Returned u)
      with run have rest: "forEachPlayer ht rest s2 = (r, s')" by simp
      have "\<not> list_ex raised (handled s2)"
        using Cons.prems(2) f2 Returned by simp
      from Cons.IH [OF rest this] show ?thesis .
    qed
  qed
qed

lemma saveGame_Val:
  "currentPlayer s = Val a \<Longrightarrow>
   \<exists>s'. saveGame keys enc s = (Returned (), s') \<and> currentPlayer s' = Val a \<and>
        turn s' = turn s \<and> handled s' = handled s"
  by (simp add: saveGame_def setItem_def Let_def)

text \<open>
  Claim C3 says that when a computer player's \<open>handleTurn\<close> throws during \<open>endTurn\<close> the
  current player is restored all the same and the error reaches the caller. The restore is
  the statement after the loop, with no \<open>try\<close> around the loop: a throw skips it. What
  holds, for a call with a current player: when a \<open>handleTurn\<close> throws, \<open>endTurn\<close> throws
  that error, the current player is left the player whose \<open>handleTurn\<close> threw, the turn
  is not incremented and nothing is saved; when none throws, \<open>endTurn\<close> returns, the
  current player is the one before the call and the turn is one more.
\<close>

theorem end_turn_handler_raises:
  assumes "currentPlayer s = Val a" and "handled s = []"
  shows "\<exists>r s'. endTurn ht keys enc s = (r, s') \<and>
           (list_ex raised (handled s') \<longrightarrow>
              (\<exists>p e. r = Threw e \<and> last (handled s') = (p, Threw e) \<and> currentPlayer s' = Val p \<and>
                     turn s' = turn s \<and> localStorage s' = localStorage s)) \<and>
           (\<not> list_ex raised (handled s') \<longrightarrow>
              r = Returned () \<and> currentPlayer s' = Val a \<and> turn s' = turn s + 1)"
proof -
  obtain r1 s1 where loop: "forEachPlayer ht (players s) s = (r1, s1)"
    by (cases "forEachPlayer ht (players s) s")
  have clean: "\<not> list_ex raised (handled s)"
    using assms(2) by simp
  from forEachPlayer_frame [OF loop]
  have frame: "turn s1 = turn s" "localStorage s1 = localStorage s" by simp_all
  note log = forEachPlayer_log [OF loop clean]
  show ?thesis
  proof (cases r1)
    case (Threw e)
    with log obtain p where
      p: "handled s1 \<noteq> []" "last (handled s1) = (p, Threw e)" "currentPlayer s1 = Val p"
      by auto
    have run: "endTurn ht keys enc s = (Threw e, s1)"
      using loop Threw by (simp add: endTurn_def handleComputerTurn_def Let_def)
    have "raised (last (handled s1))" using p(2) by simp
    then have "list_ex raised (handled s1)"
      using p(1) by (metis last_in_set list_ex_iff)
    with run p frame show ?thesis by auto
  next
    case (Returned u)
    with log have quiet: "\<not> list_ex raised (handled s1)" by simp
    let ?s2 = "s1\<lparr>currentPlayer := Val a, turn := turn s1 + 1\<rparr>"
    have cur2: "currentPlayer ?s2 = Val a" by simp
    from saveGame_Val [OF cur2, of keys enc]
    obtain s' where save: "saveGame keys enc ?s2 = (Returned (), s')"
      and after: "currentPlayer s' = Val a" "turn s' = turn ?s2" "handled s' = handled ?s2"
      by blast
    have run: "endTurn ht keys enc s = (Returned (), s')"
      using loop Returned save assms(1)
      by (simp add: endTurn_def handleComputerTurn_def Let_def)
    from run after quiet frame show ?thesis by auto
  qed
qed

text \<open>
  A human current player 0 and a computer player 1, whose \<open>handleTurn\<close> throws in the
  first call of \<open>endTurn\<close> and returns in the second.
\<close>

theorem end_turn_handler_raises_witness:
  "currentPlayer humanAndComputer = Val 0 \<and> handled humanAndComputer = [] \<and>
   (\<exists>r s'. endTurn failingTurn sampleKeys sampleEncode humanAndComputer = (r, s') \<and>
           list_ex raised (handled s') \<and>
           r = Threw (Error ''turn failed'') \<and> currentPlayer s' = Val 1 \<and> turn s' = 1) \<and>
   (\<exists>r s'. endTurn quietTurn sampleKeys sampleEncode humanAndComputer = (r, s') \<and>
           \<not> list_ex raised (handled s') \<and>
           r = Returned () \<and> currentPlayer s' = Val 0 \<and> turn s' = 2)"
proof -
  have cur: "currentPlayer humanAndComputer = Val 0"
    by (simp add: humanAndComputer_def gameOf_def)
  have log: "handled humanAndComputer = []"
    by (simp add: humanAndComputer_def gameOf_def)
  have t: "turn humanAndComputer = 1"
    by (simp add: humanAndComputer_def gameOf_def)
  have run: "handled (snd (endTurn failingTurn sampleKeys sampleEncode humanAndComputer))
      = [(1, Threw (Error ''turn failed''))]"
    by (simp add: endTurn_def handleComputerTurn_def humanAndComputer_def gameOf_def
        blankPlayer_def failingTurn_def equals_def callHandleTurn_def Let_def)
  have run': "handled (snd (endTurn quietTurn sampleKeys sampleEncode humanAndComputer))
      = [(1, Returned ())]"
    by (simp add: endTurn_def handleComputerTurn_def saveGame_def setItem_def humanAndComputer_def
        gameOf_def blankPlayer_def quietTurn_def equals_def callHandleTurn_def Let_def)
  from end_turn_handler_raises [OF cur log, of failingTurn sampleKeys sampleEncode] run t
  have fails: "\<exists>r s'. endTurn failingTurn sampleKeys sampleEncode humanAndComputer = (r, s') \<and>
           list_ex raised (handled s') \<and>
           r = Threw (Error ''turn failed'') \<and> currentPlayer s' = Val 1 \<and> turn s' = 1"
    by auto
  from end_turn_handler_raises [OF cur log, of quietTurn sampleKeys sampleEncode] run' t
  have quiet: "\<exists>r s'. endTurn quietTurn sampleKeys sampleEncode humanAndComputer = (r, s') \<and>
           \<not> list_ex raised (handled s') \<and>
           r = Returned () \<and> currentPlayer s' = Val 0 \<and> turn s' = 2"
    by auto
  from cur log fails quiet show ?thesis by simp
qed

text \<open>
  After that call the current player is the computer player 1, not the human player 0.
\<close>

theorem end_turn_leaves_failing_player_current:
  "currentPlayer humanAndComputer = Val 0 \<and>
   fst (endTurn failingTurn sampleKeys sampleEncode humanAndComputer) = Threw (Error ''turn failed'') \<and>
   currentPlayer (snd (endTurn failingTurn sampleKeys sampleEncode humanAndComputer)) = Val 1"
  by (simp add: endTurn_def handleComputerTurn_def humanAndComputer_def gameOf_def
      blankPlayer_def failingTurn_def equals_def callHandleTurn_def Let_def)

section \<open>Restoring a game\<close>

text \<open>
  Claim C9: \<open>createFromLocalStorage\<close> throws an explicit error and constructs no game
  whenever the key of the active-game flag is absent from the storage, whatever the other
  keys hold.
\<close>

theorem create_from_storage_without_flag:
  assumes "st (keys HasActiveGame) = None"
  shows "createFromLocalStorage keys decode st = Threw (Error ''cannot recreate from empty storage'')"
  using assms by (simp add: createFromLocalStorage_def getItem_def truthyString_def)

text \<open>
  A storage with a turn and no flag, and a decoder that would succeed.
\<close>

theorem create_from_storage_without_flag_witness:
  "[''turn'' \<mapsto> ''NA==''] (sampleKeys HasActiveGame) = None \<and>
   createFromLocalStorage sampleKeys sampleDecode [''turn'' \<mapsto> ''NA=='']
     = Threw (Error ''cannot recreate from empty storage'')"
proof -
  have absent: "[''turn'' \<mapsto> ''NA==''] (sampleKeys HasActiveGame) = None"
    by simp
  from create_from_storage_without_flag
         [where st = "[''turn'' \<mapsto> ''NA=='']" and keys = sampleKeys and decode = sampleDecode]
       absent
  show ?thesis by simp
qed

end
